theory Spec2Isabelle
  imports Complex_Main
begin

section \<open>School Helper backend: values, documents and schemas\<close>

text \<open>
  The backend keeps four kinds of records (students, marksheets, admit cards, attendance)
  in a document store. This theory embeds the three source modules:
  \<^item> \<^verbatim>\<open>schemas.py\<close>: the Pydantic models, as records, with \<^verbatim>\<open>model_dump\<close>;
  \<^item> \<^verbatim>\<open>database.py\<close>: the module-level handle \<^verbatim>\<open>db\<close>, \<^verbatim>\<open>create_document\<close> and
    \<^verbatim>\<open>get_documents\<close>;
  \<^item> \<^verbatim>\<open>main.py\<close>: the request handlers.

  Python values that reach a document are the datatype \<open>pyval\<close>. A Python \<^verbatim>\<open>float\<close> is
  idealised as a real number (\<open>VNum\<close>): sums, the quotient and the comparisons of the
  grading are exact. A \<^verbatim>\<open>dict\<close> is an association list with distinct keys in insertion
  order. A \<^verbatim>\<open>datetime\<close> is an instant counted in the store's resolution; an
  \<^verbatim>\<open>ObjectId\<close> is a natural number, shown as 24 hexadecimal digits.
\<close>

datatype pyval =
    VNone
  | VBool bool
  | VInt int
  | VNum real
  | VStr string
  | VDate nat nat nat
  | VDatetime nat
  | VObjectId nat
  | VList "pyval list"
  | VDict "(string \<times> pyval) list"

type_synonym pydict = "(string \<times> pyval) list"

type_synonym pydate = "nat \<times> nat \<times> nat"

datatype error =
    HTTPException nat string
  | RequestValidationError "(string \<times> string) list"
  | Exception string
  | KeyError string
  | DuplicateKeyError
  | NotImplementedError string

text \<open>\<^verbatim>\<open>d[k] = v\<close>: an existing key keeps its position, a new key goes last.\<close>

fun dict_set :: "string \<Rightarrow> pyval \<Rightarrow> pydict \<Rightarrow> pydict" where
  "dict_set k v [] = [(k, v)]"
| "dict_set k v ((k', v') # d) = (if k = k' then (k, v) # d else (k', v') # dict_set k v d)"

text \<open>The dictionary without the key \<open>k\<close> (what \<^verbatim>\<open>d.pop(k)\<close> leaves behind).\<close>

definition dict_del :: "string \<Rightarrow> pydict \<Rightarrow> pydict" where
  "dict_del k d = filter (\<lambda>kv. fst kv \<noteq> k) d"

subsection \<open>Identifiers as strings\<close>

definition hexdigit :: "nat \<Rightarrow> char" where
  "hexdigit n = ''0123456789abcdef'' ! (n mod 16)"

fun hex_of :: "nat \<Rightarrow> nat \<Rightarrow> string" where
  "hex_of 0 n = []"
| "hex_of (Suc k) n = hex_of k (n div 16) @ [hexdigit n]"




text \<open>
  \<^verbatim>\<open>str(x)\<close>, on the values the handlers apply it to: a document identifier (an
  \<^verbatim>\<open>ObjectId\<close>, or a string for documents that were given a textual \<^verbatim>\<open>_id\<close>) and the
  constants. Its value on the other constructors is left unspecified.
\<close>

fun py_str :: "pyval \<Rightarrow> string" where
  "py_str (VObjectId n) = hex_of 24 n"
| "py_str (VStr s) = s"
| "py_str VNone = ''None''"
| "py_str (VBool b) = (if b then ''True'' else ''False'')"

subsection \<open>The schemas\<close>

text \<open>
  One record per Pydantic model, with the fields in declaration order. Field names that
  several models share are written qualified (\<open>Student.class_name\<close>,
  \<open>Marksheet.class_name\<close>). An \<^verbatim>\<open>Optional\<close> field is an \<open>option\<close>. The numeric
  constraints of the \<^verbatim>\<open>Field\<close> declarations are checked when a request body is
  validated, not when an attribute of an instance is assigned.
\<close>

record Student =
  full_name :: string
  roll_no :: string
  class_name :: string
  student_section :: "string option"
  dob :: "pydate option"
  guardian_name :: "string option"
  contact :: "string option"
  address :: "string option"

record SubjectMark =
  name :: string
  marks :: real
  max_marks :: real

record Marksheet =
  student_id :: string
  exam_name :: string
  class_name :: string
  year :: int
  subjects :: "SubjectMark list"
  total_obtained :: "real option"
  total_max :: "real option"
  percentage :: "real option"
  grade :: "string option"
  remarks :: "string option"

record AdmitCard =
  student_id :: string
  roll_no :: string
  class_name :: string
  exam_name :: string
  exam_date :: "pydate option"
  center :: "string option"
  issued_on :: "pydate option"

record Attendance =
  student_id :: string
  date :: pydate
  status :: string
  remarks :: "string option"

datatype model =
    MStudent Student
  | MMarksheet Marksheet
  | MAdmitCard AdmitCard
  | MAttendance Attendance

definition dump_str :: "string option \<Rightarrow> pyval" where
  "dump_str x = (case x of None \<Rightarrow> VNone | Some s \<Rightarrow> VStr s)"

definition dump_num :: "real option \<Rightarrow> pyval" where
  "dump_num x = (case x of None \<Rightarrow> VNone | Some r \<Rightarrow> VNum r)"

definition dump_date :: "pydate \<Rightarrow> pyval" where
  "dump_date x = (case x of (y, m, d) \<Rightarrow> VDate y m d)"

definition dump_date_opt :: "pydate option \<Rightarrow> pyval" where
  "dump_date_opt x = (case x of None \<Rightarrow> VNone | Some d \<Rightarrow> dump_date d)"

definition dump_subject :: "SubjectMark \<Rightarrow> pyval" where
  "dump_subject s =
     VDict [(''name'', VStr (name s)), (''marks'', VNum (marks s)),
            (''max_marks'', VNum (max_marks s))]"

text \<open>\<^verbatim>\<open>data.model_dump()\<close>: a new dictionary of the instance's fields, nested models dumped.\<close>

fun model_dump :: "model \<Rightarrow> pydict" where
  "model_dump (MStudent s) =
     [(''full_name'', VStr (full_name s)),
      (''roll_no'', VStr (Student.roll_no s)),
      (''class_name'', VStr (Student.class_name s)),
      (''section'', dump_str (student_section s)),
      (''dob'', dump_date_opt (dob s)),
      (''guardian_name'', dump_str (guardian_name s)),
      (''contact'', dump_str (contact s)),
      (''address'', dump_str (address s))]"
| "model_dump (MMarksheet m) =
     [(''student_id'', VStr (Marksheet.student_id m)),
      (''exam_name'', VStr (Marksheet.exam_name m)),
      (''class_name'', VStr (Marksheet.class_name m)),
      (''year'', VInt (year m)),
      (''subjects'', VList (map dump_subject (subjects m))),
      (''total_obtained'', dump_num (total_obtained m)),
      (''total_max'', dump_num (total_max m)),
      (''percentage'', dump_num (percentage m)),
      (''grade'', dump_str (grade m)),
      (''remarks'', dump_str (Marksheet.remarks m))]"
| "model_dump (MAdmitCard c) =
     [(''student_id'', VStr (AdmitCard.student_id c)),
      (''roll_no'', VStr (AdmitCard.roll_no c)),
      (''class_name'', VStr (AdmitCard.class_name c)),
      (''exam_name'', VStr (AdmitCard.exam_name c)),
      (''exam_date'', dump_date_opt (exam_date c)),
      (''center'', dump_str (center c)),
      (''issued_on'', dump_date_opt (issued_on c))]"
| "model_dump (MAttendance a) =
     [(''student_id'', VStr (Attendance.student_id a)),
      (''date'', dump_date (date a)),
      (''status'', VStr (status a)),
      (''remarks'', dump_str (Attendance.remarks a))]"

section \<open>The document store and the process state\<close>

text \<open>
  The store behind the driver handle: its collections in creation order, each a list of
  documents in insertion order, and the counter the next generated \<^verbatim>\<open>ObjectId\<close> is
  taken from. \<open>as_bool\<close> is what \<^verbatim>\<open>bool(db)\<close> does on the handle: the source tests
  \<^verbatim>\<open>if db\<close> once, and a driver object may answer or raise there.

  The driver is the external collaborator. It is modelled on the operations the source
  calls (\<^verbatim>\<open>find\<close>, \<^verbatim>\<open>find_one\<close>, \<^verbatim>\<open>insert_one\<close>, \<^verbatim>\<open>list_collection_names\<close>) and on
  the queries the source builds: a filter is a conjunction of \<open>field = value\<close>
  constraints between scalars. Connectivity and encoding failures of the driver are not
  part of the model.
\<close>

record store =
  colls :: "(string \<times> pydict list) list"
  next_oid :: nat
  as_bool :: "error + bool"

text \<open>
  The process state: the module-level \<^verbatim>\<open>db\<close> (\<open>None\<close> when the store is not
  configured), the environment variables, the UTC clock (the \<open>i\<close>-th reading of the
  process is \<open>clock i\<close>), and the heap of dictionary objects that callers hold by
  reference.
\<close>

record world =
  db :: "store option"
  environ :: "(string \<times> string) list"
  clock :: "nat \<Rightarrow> nat"
  ticks :: nat
  heap :: "nat \<Rightarrow> pydict"
  next_addr :: nat


text \<open>
  Module initialisation of \<^verbatim>\<open>database.py\<close>: the handle exists only when the driver is
  importable, both variables are set and non-empty, and the client constructor does not
  raise. \<open>client\<close> is the outcome of \<^verbatim>\<open>MongoClient(database_url)[database_name]\<close>.
\<close>

definition module_db :: "bool \<Rightarrow> string option \<Rightarrow> string option \<Rightarrow> error + store \<Rightarrow> store option" where
  "module_db MongoClient database_url database_name client =
     (if MongoClient \<and> database_url \<noteq> None \<and> database_url \<noteq> Some []
         \<and> database_name \<noteq> None \<and> database_name \<noteq> Some []
      then (case client of Inl e \<Rightarrow> None | Inr s \<Rightarrow> Some s)
      else None)"

subsection \<open>Driver operations\<close>

definition collection :: "store \<Rightarrow> string \<Rightarrow> pydict list" where
  "collection s c = (case map_of (colls s) c of None \<Rightarrow> [] | Some ds \<Rightarrow> ds)"

definition matches :: "pydict \<Rightarrow> pydict \<Rightarrow> bool" where
  "matches q d = list_all (\<lambda>kv. map_of d (fst kv) = Some (snd kv)) q"

definition find :: "store \<Rightarrow> string \<Rightarrow> pydict \<Rightarrow> pydict list" where
  "find s c q = filter (matches q) (collection s c)"



fun add_doc :: "string \<Rightarrow> pydict \<Rightarrow> (string \<times> pydict list) list \<Rightarrow> (string \<times> pydict list) list" where
  "add_doc c d [] = [(c, [d])]"
| "add_doc c d ((c', ds) # cs) =
     (if c = c' then (c', ds @ [d]) # cs else (c', ds) # add_doc c d cs)"

subsection \<open>Clock and heap\<close>

text \<open>\<^verbatim>\<open>datetime.now(timezone.utc)\<close>: one reading of the clock.\<close>

definition now :: "world \<Rightarrow> nat \<times> world" where
  "now w = (clock w (ticks w), w\<lparr>ticks := Suc (ticks w)\<rparr>)"

text \<open>A new dictionary object holding \<open>d\<close>; the result is its address.\<close>

definition new_dict :: "pydict \<Rightarrow> world \<Rightarrow> nat \<times> world" where
  "new_dict d w =
     (next_addr w, w\<lparr>heap := (heap w)(next_addr w := d), next_addr := Suc (next_addr w)\<rparr>)"

text \<open>\<^verbatim>\<open>obj[k] = v\<close> on the dictionary object at address \<open>a\<close>.\<close>

definition setitem :: "nat \<Rightarrow> string \<Rightarrow> pyval \<Rightarrow> world \<Rightarrow> world" where
  "setitem a k v w = w\<lparr>heap := (heap w)(a := dict_set k v (heap w a))\<rparr>"

text \<open>
  \<^verbatim>\<open>db[c].insert_one(document)\<close> on the dictionary object at address \<open>a\<close>. A
  document without \<^verbatim>\<open>_id\<close> gets a generated one, which the driver also writes into the
  object it was given; a document that brings its \<^verbatim>\<open>_id\<close> is refused when the
  collection already has that identifier. The stored document has \<^verbatim>\<open>_id\<close> first.
\<close>

definition insert_one :: "string \<Rightarrow> nat \<Rightarrow> store \<Rightarrow> world \<Rightarrow> (error + pyval) \<times> world" where
  "insert_one c a s w =
     (let d = heap w a in
      case map_of d ''_id'' of
        None \<Rightarrow>
          (let oid = VObjectId (next_oid s);
               w1 = setitem a ''_id'' oid w
           in (Inr oid,
               w1\<lparr>db := Some (s\<lparr>colls := add_doc c ((''_id'', oid) # d) (colls s),
                                 next_oid := Suc (next_oid s)\<rparr>)\<rparr>))
      | Some i \<Rightarrow>
          if find s c [(''_id'', i)] \<noteq> [] then (Inl DuplicateKeyError, w)
          else (Inr i,
                w\<lparr>db := Some (s\<lparr>colls :=
                       add_doc c ((''_id'', i) # dict_del ''_id'' d) (colls s)\<rparr>)\<rparr>))"

section \<open>database.py\<close>

text \<open>
  The argument of \<^verbatim>\<open>create_document\<close> is a schema instance or a plain dictionary; the
  latter is an object of the caller, passed by reference.
\<close>

datatype data = Model model | Dict nat

text \<open>
  \<^verbatim>\<open>data.model_dump() if isinstance(data, BaseModel) else dict(data)\<close>: the contents of
  the new dictionary that \<^verbatim>\<open>create_document\<close> works on.
\<close>

definition argument_dict :: "data \<Rightarrow> world \<Rightarrow> pydict" where
  "argument_dict dat w = (case dat of Model m \<Rightarrow> model_dump m | Dict r \<Rightarrow> heap w r)"

definition create_document :: "string \<Rightarrow> data \<Rightarrow> world \<Rightarrow> (error + string) \<times> world" where
  "create_document collection_name dat w =
     (case db w of
        None \<Rightarrow>
          (Inl (Exception ''Database not available. Check DATABASE_URL and DATABASE_NAME environment variables.''), w)
      | Some s \<Rightarrow>
          (let (data_dict, w1) =
                 new_dict (argument_dict dat w) w;
               (t1, w2) = now w1;
               w3 = setitem data_dict ''created_at'' (VDatetime t1) w2;
               (t2, w4) = now w3;
               w5 = setitem data_dict ''updated_at'' (VDatetime t2) w4
           in case insert_one collection_name data_dict s w5 of
                (Inl e, w6) \<Rightarrow> (Inl e, w6)
              | (Inr inserted_id, w6) \<Rightarrow> (Inr (py_str inserted_id), w6)))"

text \<open>
  \<^verbatim>\<open>get_documents\<close>: \<^verbatim>\<open>filter_dict or {}\<close> reads a missing filter as the empty one,
  and \<^verbatim>\<open>if limit\<close> reads a missing limit and the limit 0 as no limit.
\<close>

definition get_documents :: "string \<Rightarrow> pydict option \<Rightarrow> nat option \<Rightarrow> world \<Rightarrow> (error + pydict list) \<times> world" where
  "get_documents collection_name filter_dict limit w =
     (case db w of
        None \<Rightarrow>
          (Inl (Exception ''Database not available. Check DATABASE_URL and DATABASE_NAME environment variables.''), w)
      | Some s \<Rightarrow>
          (let cursor = find s collection_name (case filter_dict of None \<Rightarrow> [] | Some q \<Rightarrow> q);
               cursor = (case limit of None \<Rightarrow> cursor
                         | Some n \<Rightarrow> if n = 0 then cursor else take n cursor)
           in (Inr cursor, w)))"

section \<open>main.py\<close>

subsection \<open>Truth values and small helpers\<close>




text \<open>\<^verbatim>\<open>if x: q[k] = x\<close>, the statement every list handler builds its filter from.\<close>

definition set_if :: "string \<Rightarrow> string option \<Rightarrow> pydict \<Rightarrow> pydict" where
  "set_if k x q = (case x of None \<Rightarrow> q | Some v \<Rightarrow> if v \<noteq> [] then dict_set k (VStr v) q else q)"

text \<open>
  \<^verbatim>\<open>for d in docs: d["id"] = str(d.pop("_id"))\<close>. \<^verbatim>\<open>pop\<close> raises \<^verbatim>\<open>KeyError\<close> on a
  document without \<^verbatim>\<open>_id\<close>, which ends the loop and the request.
\<close>

definition rename_id :: "pydict \<Rightarrow> error + pydict" where
  "rename_id d =
     (case map_of d ''_id'' of
        None \<Rightarrow> Inl (KeyError ''_id'')
      | Some v \<Rightarrow> Inr (dict_set ''id'' (VStr (py_str v)) (dict_del ''_id'' d)))"

fun rename_ids :: "pydict list \<Rightarrow> error + pydict list" where
  "rename_ids [] = Inr []"
| "rename_ids (d # ds) =
     (case rename_id d of
        Inl e \<Rightarrow> Inl e
      | Inr d' \<Rightarrow> (case rename_ids ds of Inl e \<Rightarrow> Inl e | Inr ds' \<Rightarrow> Inr (d' # ds')))"





subsection \<open>Liveness and diagnostics\<close>



subsection \<open>Helpers\<close>

text \<open>
  \<^verbatim>\<open>ensure_db_available\<close> tests \<^verbatim>\<open>db\<close>, \<^verbatim>\<open>create_document\<close> and \<^verbatim>\<open>get_documents\<close>
  against \<^verbatim>\<open>None\<close>. One import statement binds the three names: when it fails all three
  are \<^verbatim>\<open>None\<close>, when it succeeds the two functions are not, so the test is that of
  \<^verbatim>\<open>db\<close>.
\<close>

definition ensure_db_available :: "world \<Rightarrow> error + unit" where
  "ensure_db_available w =
     (if db w = None
      then Inl (HTTPException 503 ''Database not configured. Set DATABASE_URL and DATABASE_NAME.'')
      else Inr ())"

text \<open>The tail of every create handler: \<^verbatim>\<open>new_id = create_document(c, x); return {"id": new_id}\<close>.\<close>

definition return_new_id :: "(error + string) \<times> world \<Rightarrow> (error + pyval) \<times> world" where
  "return_new_id r =
     (case r of
        (Inl e, w') \<Rightarrow> (Inl e, w')
      | (Inr new_id, w') \<Rightarrow> (Inr (VDict [(''id'', VStr new_id)]), w'))"

text \<open>The tail of every list handler: query, rename the identifiers, return the documents.\<close>

definition return_docs :: "string \<Rightarrow> pydict \<Rightarrow> world \<Rightarrow> (error + pyval) \<times> world" where
  "return_docs c q w =
     (case get_documents c (Some q) None w of
        (Inl e, w') \<Rightarrow> (Inl e, w')
      | (Inr docs, w') \<Rightarrow>
          (case rename_ids docs of
             Inl e \<Rightarrow> (Inl e, w')
           | Inr docs' \<Rightarrow> (Inr (VList (map VDict docs')), w')))"

subsection \<open>Students\<close>


definition list_students :: "string option \<Rightarrow> string option \<Rightarrow> world \<Rightarrow> (error + pyval) \<times> world" where
  "list_students class_name_q section_q w =
     (case ensure_db_available w of
        Inl e \<Rightarrow> (Inl e, w)
      | Inr u \<Rightarrow>
          (let query = [];
               query = set_if ''class_name'' class_name_q query;
               query = set_if ''section'' section_q query
           in return_docs ''student'' query w))"


subsection \<open>Marksheets\<close>

text \<open>
  \<^verbatim>\<open>round(x, 2)\<close>: the nearest multiple of one hundredth, a tie going to the even
  neighbour.
\<close>

definition py_round2 :: "real \<Rightarrow> real" where
  "py_round2 x =
     (let y = x * 100;
          f = \<lfloor>y\<rfloor>;
          r = y - of_int f;
          n = (if r < 1 / 2 then f else if 1 / 2 < r then f + 1
               else if even f then f else f + 1)
      in of_int n / 100)"

text \<open>
  \<^verbatim>\<open>create_marksheet\<close>. The local variables \<^verbatim>\<open>total_max\<close>, \<^verbatim>\<open>percentage\<close> and
  \<^verbatim>\<open>grade\<close> are primed, the fields of the sheet keep the names. The assignments to the
  attributes of \<^verbatim>\<open>sheet\<close> are the record update.
\<close>

definition create_marksheet :: "Marksheet \<Rightarrow> world \<Rightarrow> (error + pyval) \<times> world" where
  "create_marksheet sheet w =
     (case ensure_db_available w of
        Inl e \<Rightarrow> (Inl e, w)
      | Inr u \<Rightarrow>
          (let sheet =
                 (if subjects sheet \<noteq> [] then
                    (let total_obt = sum_list (map marks (subjects sheet));
                         total_max' = sum_list (map max_marks (subjects sheet));
                         percentage' = (if total_max' > 0 then total_obt / total_max' * 100 else 0);
                         grade' =
                           (if percentage' \<ge> 90 then ''A+''
                            else if percentage' \<ge> 80 then ''A''
                            else if percentage' \<ge> 70 then ''B''
                            else if percentage' \<ge> 60 then ''C''
                            else if percentage' \<ge> 50 then ''D''
                            else ''E'')
                     in sheet\<lparr>total_obtained := Some total_obt,
                              total_max := Some total_max',
                              percentage := Some (py_round2 percentage'),
                              grade := Some grade'\<rparr>)
                  else sheet)
           in return_new_id (create_document ''marksheet'' (Model (MMarksheet sheet)) w)))"

definition list_marksheets :: "string option \<Rightarrow> string option \<Rightarrow> world \<Rightarrow> (error + pyval) \<times> world" where
  "list_marksheets student_id_q exam_name_q w =
     (case ensure_db_available w of
        Inl e \<Rightarrow> (Inl e, w)
      | Inr u \<Rightarrow>
          (let q = [];
               q = set_if ''student_id'' student_id_q q;
               q = set_if ''exam_name'' exam_name_q q
           in return_docs ''marksheet'' q w))"

subsection \<open>Admit cards\<close>


definition list_admit_cards :: "string option \<Rightarrow> string option \<Rightarrow> world \<Rightarrow> (error + pyval) \<times> world" where
  "list_admit_cards student_id_q exam_name_q w =
     (case ensure_db_available w of
        Inl e \<Rightarrow> (Inl e, w)
      | Inr u \<Rightarrow>
          (let q = [];
               q = set_if ''student_id'' student_id_q q;
               q = set_if ''exam_name'' exam_name_q q
           in return_docs ''admitcard'' q w))"

subsection \<open>Attendance\<close>


definition list_attendance :: "string option \<Rightarrow> string option \<Rightarrow> string option \<Rightarrow> world \<Rightarrow> (error + pyval) \<times> world" where
  "list_attendance student_id_q date_q status_q w =
     (case ensure_db_available w of
        Inl e \<Rightarrow> (Inl e, w)
      | Inr u \<Rightarrow>
          (let q = [];
               q = set_if ''student_id'' student_id_q q;
               q = set_if ''date'' date_q q;
               q = set_if ''status'' status_q q
           in return_docs ''attendance'' q w))"

section \<open>Validation of request bodies\<close>

text \<open>
  A request body is JSON. Before a create handler runs, the framework validates the body
  against the handler's parameter type and answers 422 with the list of offending fields
  when that fails; the handler is not called then. The validators below are the field
  declarations of \<^verbatim>\<open>schemas.py\<close>, each producing the field's value or its errors.
\<close>

datatype json =
    JNull
  | JBool bool
  | JNumber real
  | JString string
  | JArray "json list"
  | JObject "(string \<times> json) list"









text \<open>
  The constraints that \<^verbatim>\<open>schemas.py\<close> declares on the numeric fields of a marksheet and
  of its subjects: every validated instance satisfies them.
\<close>

definition valid_SubjectMark :: "SubjectMark \<Rightarrow> bool" where
  "valid_SubjectMark s = (marks s \<ge> 0 \<and> max_marks s > 0)"

definition in_range :: "real \<Rightarrow> real \<Rightarrow> real option \<Rightarrow> bool" where
  "in_range lo hi x = (case x of None \<Rightarrow> True | Some r \<Rightarrow> lo \<le> r \<and> r \<le> hi)"

definition at_least :: "real \<Rightarrow> real option \<Rightarrow> bool" where
  "at_least lo x = (case x of None \<Rightarrow> True | Some r \<Rightarrow> lo \<le> r)"

definition valid_Marksheet :: "Marksheet \<Rightarrow> bool" where
  "valid_Marksheet m =
     (1900 \<le> year m \<and> year m \<le> 3000
      \<and> list_all valid_SubjectMark (subjects m)
      \<and> at_least 0 (total_obtained m)
      \<and> at_least 0 (total_max m)
      \<and> in_range 0 100 (percentage m))"

section \<open>Vocabulary of the properties\<close>

text \<open>The documents of a collection, as the process sees them through its handle.\<close>

definition stored_docs :: "world \<Rightarrow> string \<Rightarrow> pydict list" where
  "stored_docs w c = (case db w of None \<Rightarrow> [] | Some s \<Rightarrow> collection s c)"

text \<open>
  A dictionary after the two stamping assignments of \<^verbatim>\<open>create_document\<close>, made in the
  state \<open>w\<close>: \<^verbatim>\<open>created_at\<close> holds the next clock reading, \<^verbatim>\<open>updated_at\<close> the one
  after it.
\<close>

definition stamped :: "world \<Rightarrow> pydict \<Rightarrow> pydict" where
  "stamped w d =
     dict_set ''updated_at'' (VDatetime (clock w (Suc (ticks w))))
       (dict_set ''created_at'' (VDatetime (clock w (ticks w))) d)"

text \<open>
  The value of the local variable \<^verbatim>\<open>sheet\<close> of \<^verbatim>\<open>create_marksheet\<close> after its
  \<^verbatim>\<open>if sheet.subjects\<close> block: the instance that is handed to \<^verbatim>\<open>create_document\<close>
  (lemma \<open>create_marksheet_graded\<close>).
\<close>

definition graded :: "Marksheet \<Rightarrow> Marksheet" where
  "graded sheet =
     (if subjects sheet \<noteq> [] then
        (let total_obt = sum_list (map marks (subjects sheet));
             total_max' = sum_list (map max_marks (subjects sheet));
             percentage' = (if total_max' > 0 then total_obt / total_max' * 100 else 0);
             grade' =
               (if percentage' \<ge> 90 then ''A+''
                else if percentage' \<ge> 80 then ''A''
                else if percentage' \<ge> 70 then ''B''
                else if percentage' \<ge> 60 then ''C''
                else if percentage' \<ge> 50 then ''D''
                else ''E'')
         in sheet\<lparr>total_obtained := Some total_obt,
                  total_max := Some total_max',
                  percentage := Some (py_round2 percentage'),
                  grade := Some grade'\<rparr>)
      else sheet)"




subsection \<open>Concrete states and requests\<close>

definition fresh_store :: store where
  "fresh_store = \<lparr>colls = [], next_oid = 0, as_bool = Inr True\<rparr>"

definition fresh_world :: world where
  "fresh_world =
     \<lparr>db = Some fresh_store, environ = [], clock = (\<lambda>i. 1000 + i), ticks = 0,
      heap = (\<lambda>a. []), next_addr = 0\<rparr>"

definition sheet_of :: "SubjectMark list \<Rightarrow> Marksheet" where
  "sheet_of subs =
     \<lparr>Marksheet.student_id = ''s1'', Marksheet.exam_name = ''Half-Yearly'',
      Marksheet.class_name = ''10'', year = 2024, subjects = subs,
      total_obtained = None, total_max = None, percentage = None, grade = None,
      Marksheet.remarks = None\<rparr>"



definition sheet_topper :: Marksheet where
  "sheet_topper =
     (sheet_of [])\<lparr>total_obtained := Some 500, total_max := Some 500, percentage := Some 100,
                   grade := Some ''A+'', Marksheet.remarks := Some ''Topper''\<rparr>"

definition sheet_150 :: Marksheet where
  "sheet_150 = sheet_of [\<lparr>name = ''Math'', marks = 150, max_marks = 100\<rparr>]"

text \<open>A stored student, a store that holds it, and a second student with its roll number.\<close>

definition student_doc :: pydict where
  "student_doc =
     [(''_id'', VObjectId 7), (''full_name'', VStr ''A''), (''roll_no'', VStr ''1''),
      (''class_name'', VStr ''5''), (''section'', VNone), (''dob'', VNone),
      (''guardian_name'', VNone), (''contact'', VNone), (''address'', VNone),
      (''created_at'', VDatetime 10), (''updated_at'', VDatetime 10)]"







text \<open>
  What a list handler returns for a stored document: \<^verbatim>\<open>_id\<close> removed and its string
  form added as \<^verbatim>\<open>id\<close> (\<open>public_doc\<close>, \<open>listing\<close>). \<open>wanted k x d\<close> says that the
  document \<open>d\<close> passes the query parameter \<open>x\<close> for the field \<open>k\<close>: an absent or empty
  parameter lets every document pass, any other one the documents whose field equals it.
\<close>

definition has_id :: "pydict \<Rightarrow> bool" where
  "has_id d = (map_of d ''_id'' \<noteq> None)"

definition public_doc :: "pydict \<Rightarrow> pydict" where
  "public_doc d =
     (case map_of d ''_id'' of
        None \<Rightarrow> d
      | Some v \<Rightarrow> dict_set ''id'' (VStr (py_str v)) (dict_del ''_id'' d))"

definition wanted :: "string \<Rightarrow> string option \<Rightarrow> pydict \<Rightarrow> bool" where
  "wanted k x d = (case x of None \<Rightarrow> True | Some v \<Rightarrow> v = [] \<or> map_of d k = Some (VStr v))"

definition listing :: "pydict list \<Rightarrow> pyval" where
  "listing ds = VList (map (\<lambda>d. VDict (public_doc d)) ds)"

text \<open>Two stored attendance records and their public forms.\<close>

definition att_present :: pydict where
  "att_present =
     [(''_id'', VObjectId 21), (''student_id'', VStr ''s1''), (''date'', VDate 2024 1 15),
      (''status'', VStr ''Present''), (''remarks'', VNone),
      (''created_at'', VDatetime 20), (''updated_at'', VDatetime 20)]"

definition att_absent :: pydict where
  "att_absent =
     [(''_id'', VObjectId 22), (''student_id'', VStr ''s2''), (''date'', VDate 2024 1 15),
      (''status'', VStr ''Absent''), (''remarks'', VNone),
      (''created_at'', VDatetime 30), (''updated_at'', VDatetime 30)]"

definition school_store :: store where
  "school_store =
     \<lparr>colls = [(''student'', [student_doc]), (''attendance'', [att_present, att_absent])],
      next_oid = 8, as_bool = Inr True\<rparr>"

definition school_world :: world where
  "school_world = fresh_world\<lparr>db := Some school_store\<rparr>"

definition public_present :: pyval where
  "public_present =
     VDict [(''student_id'', VStr ''s1''), (''date'', VDate 2024 1 15),
            (''status'', VStr ''Present''), (''remarks'', VNone),
            (''created_at'', VDatetime 20), (''updated_at'', VDatetime 20),
            (''id'', VStr ''000000000000000000000015'')]"

definition public_absent :: pyval where
  "public_absent =
     VDict [(''student_id'', VStr ''s2''), (''date'', VDate 2024 1 15),
            (''status'', VStr ''Absent''), (''remarks'', VNone),
            (''created_at'', VDatetime 30), (''updated_at'', VDatetime 30),
            (''id'', VStr ''000000000000000000000016'')]"




text \<open>Two dictionaries that a caller holds, at the addresses 0 and 1, and an admit card.\<close>

definition caller_dict :: pydict where
  "caller_dict = [(''title'', VStr ''Sports day''), (''created_at'', VStr ''yesterday'')]"

definition plain_dict :: pydict where
  "plain_dict = [(''title'', VStr ''Sports day'')]"

definition dict_world :: world where
  "dict_world =
     fresh_world\<lparr>heap := (heap fresh_world)(0 := caller_dict, 1 := plain_dict), next_addr := 2\<rparr>"

definition card_1 :: AdmitCard where
  "card_1 =
     \<lparr>AdmitCard.student_id = ''s1'', AdmitCard.roll_no = ''1'', AdmitCard.class_name = ''10'',
      AdmitCard.exam_name = ''Half-Yearly'', exam_date = None, center = None, issued_on = None\<rparr>"

text \<open>
  The document that \<^verbatim>\<open>create_document\<close> stores for the dictionary \<open>d\<close>, in the state
  \<open>w\<close> with the store \<open>s\<close> (lemma \<open>create_document_stored\<close>).
\<close>

definition stored_form :: "store \<Rightarrow> world \<Rightarrow> pydict \<Rightarrow> pydict" where
  "stored_form s w d =
     (case map_of d ''_id'' of
        None \<Rightarrow> (''_id'', VObjectId (next_oid s)) # stamped w d
      | Some i \<Rightarrow> (''_id'', i) # dict_del ''_id'' (stamped w d))"

section \<open>Auxiliary facts\<close>

lemma db_fresh_world: "db fresh_world = Some fresh_store"
  by (simp add: fresh_world_def)

lemma docs_fresh_world: "stored_docs fresh_world c = []"
  by (simp add: stored_docs_def fresh_world_def fresh_store_def collection_def)

lemma map_of_add_doc:
  "map_of (add_doc c d cs) c' =
     (if c' = c then Some ((case map_of cs c of None \<Rightarrow> [] | Some ds \<Rightarrow> ds) @ [d])
      else map_of cs c')"
  by (induction cs) auto

lemma collection_add_doc:
  "collection (s\<lparr>colls := add_doc c d (colls s)\<rparr>) c' =
     (if c' = c then collection s c @ [d] else collection s c')"
  by (simp add: collection_def map_of_add_doc)

lemma collection_next_oid [simp]: "collection (s\<lparr>next_oid := n\<rparr>) c = collection s c"
  by (simp add: collection_def)

lemma map_of_dict_set:
  "map_of (dict_set k v d) k' = (if k' = k then Some v else map_of d k')"
  by (induction d) auto

lemma map_of_dict_del:
  "map_of (dict_del k d) k' = (if k' = k then None else map_of d k')"
  by (induction d) (auto simp: dict_del_def)

lemma map_of_stamped:
  "map_of (stamped w d) k =
     (if k = ''updated_at'' then Some (VDatetime (clock w (Suc (ticks w))))
      else if k = ''created_at'' then Some (VDatetime (clock w (ticks w)))
      else map_of d k)"
  by (simp add: stamped_def map_of_dict_set)

text \<open>What \<^verbatim>\<open>create_document\<close> returns and stores for a dictionary that brings no \<^verbatim>\<open>_id\<close>.\<close>

lemma create_document_fresh:
  assumes "db w = Some s" and "map_of (argument_dict dat w) ''_id'' = None"
  shows "fst (create_document c dat w) = Inr (py_str (VObjectId (next_oid s)))"
    and "stored_docs (snd (create_document c dat w)) c' =
           (if c' = c
            then stored_docs w c @
                   [(''_id'', VObjectId (next_oid s)) # stamped w (argument_dict dat w)]
            else stored_docs w c')"
  using assms
  by (simp_all add: create_document_def new_dict_def now_def setitem_def insert_one_def Let_def
      stored_docs_def stamped_def map_of_dict_set collection_add_doc)

lemma snd_return_new_id [simp]: "snd (return_new_id r) = snd r"
  by (cases r) (simp add: return_new_id_def split: sum.splits)

lemma create_marksheet_graded:
  "db w = Some s \<Longrightarrow>
   create_marksheet sheet w =
     return_new_id (create_document ''marksheet'' (Model (MMarksheet (graded sheet))) w)"
  by (simp add: create_marksheet_def ensure_db_available_def graded_def Let_def)

lemma create_marksheet_stored:
  assumes "db w = Some s"
  shows "stored_docs (snd (create_marksheet sheet w)) ''marksheet'' =
           stored_docs w ''marksheet'' @
             [(''_id'', VObjectId (next_oid s)) #
              stamped w (model_dump (MMarksheet (graded sheet)))]"
  using create_document_fresh(2)
    [OF assms, of "Model (MMarksheet (graded sheet))" "''marksheet''" "''marksheet''"]
  by (simp add: create_marksheet_graded [OF assms] argument_dict_def)


lemma graded_empty: "subjects sheet = [] \<Longrightarrow> graded sheet = sheet"
  by (simp add: graded_def)


lemma dump_Some [simp]: "dump_str (Some x) = VStr x" "dump_num (Some r) = VNum r"
  by (simp_all add: dump_str_def dump_num_def)

lemma dump_None [simp]: "dump_str None = VNone" "dump_num None = VNone"
  by (simp_all add: dump_str_def dump_num_def)

lemma stored_fresh:
  "stored_docs (snd (create_marksheet sheet fresh_world)) ''marksheet'' =
      [(''_id'', VObjectId 0) # stamped fresh_world (model_dump (MMarksheet (graded sheet)))]"
  using create_marksheet_stored [OF db_fresh_world, of sheet]
  by (simp add: docs_fresh_world fresh_store_def)

lemma fst_create_marksheet:
  "db w = Some s \<Longrightarrow>
   fst (create_marksheet sheet w) = Inr (VDict [(''id'', VStr (py_str (VObjectId (next_oid s))))])"
  using create_document_fresh(1) [of w s "Model (MMarksheet (graded sheet))" "''marksheet''"]
  by (cases "create_document ''marksheet'' (Model (MMarksheet (graded sheet))) w")
     (auto simp add: create_marksheet_graded return_new_id_def argument_dict_def split: sum.splits)


lemma rename_ids_public:
  "list_all has_id ds \<Longrightarrow> rename_ids ds = Inr (map public_doc ds)"
  by (induction ds) (auto simp add: has_id_def rename_id_def public_doc_def)

lemma list_all_filter: "list_all P ds \<Longrightarrow> list_all P (filter Q ds)"
  by (induction ds) auto

lemma return_docs_listing:
  assumes "db w = Some s" and "list_all has_id (collection s c)"
  shows "return_docs c q w = (Inr (listing (filter (matches q) (collection s c))), w)"
  using assms
  by (simp add: return_docs_def get_documents_def find_def Let_def listing_def
      rename_ids_public list_all_filter)

lemma matches_set_if_1:
  "matches (set_if k x []) d = wanted k x d"
  by (cases x) (auto simp add: set_if_def matches_def wanted_def)

lemma matches_set_if_2:
  "k1 \<noteq> k2 \<Longrightarrow>
   matches (set_if k2 y (set_if k1 x [])) d = (wanted k1 x d \<and> wanted k2 y d)"
  by (cases x; cases y) (auto simp add: set_if_def matches_def wanted_def)

lemma matches_set_if_3:
  "k1 \<noteq> k2 \<Longrightarrow> k1 \<noteq> k3 \<Longrightarrow> k2 \<noteq> k3 \<Longrightarrow>
   matches (set_if k3 z (set_if k2 y (set_if k1 x []))) d =
     (wanted k1 x d \<and> wanted k2 y d \<and> wanted k3 z d)"
  by (cases x; cases y; cases z) (auto simp add: set_if_def matches_def wanted_def)

lemma hex_of_small:
  "hex_of 24 21 = ''000000000000000000000015''"
  "hex_of 24 22 = ''000000000000000000000016''"
  by code_simp+

lemma db_school_world: "db school_world = Some school_store"
  by (simp add: school_world_def)

lemma school_collections:
  "collection school_store ''student'' = [student_doc]"
  "collection school_store ''marksheet'' = []"
  "collection school_store ''admitcard'' = []"
  "collection school_store ''attendance'' = [att_present, att_absent]"
  by (simp_all add: school_store_def collection_def)

lemma school_public:
  "VDict (public_doc att_present) = public_present"
  "VDict (public_doc att_absent) = public_absent"
  by (simp_all add: public_doc_def att_present_def att_absent_def public_present_def
      public_absent_def dict_del_def hex_of_small)






lemma create_document_given_id:
  assumes "db w = Some s" and "map_of (argument_dict dat w) ''_id'' = Some i"
    and "fst (create_document c dat w) = Inr r"
  shows "stored_docs (snd (create_document c dat w)) c =
           stored_docs w c @ [(''_id'', i) # dict_del ''_id'' (stamped w (argument_dict dat w))]"
  using assms
  by (simp add: create_document_def new_dict_def now_def setitem_def insert_one_def Let_def
      stored_docs_def stamped_def map_of_dict_set collection_add_doc split: if_splits)

lemma create_document_stored:
  assumes "db w = Some s" and "fst (create_document c dat w) = Inr r"
  shows "stored_docs (snd (create_document c dat w)) c =
           stored_docs w c @ [stored_form s w (argument_dict dat w)]"
proof (cases "map_of (argument_dict dat w) ''_id''")
  case None
  then show ?thesis
    using create_document_fresh(2) [OF assms(1) None, of c c] by (simp add: stored_form_def)
next
  case (Some i)
  then show ?thesis
    using create_document_given_id [OF assms(1) Some assms(2)] by (simp add: stored_form_def)
qed

lemma map_of_stored_form:
  "map_of (stored_form s w d) k =
     (if k = ''_id'' then (case map_of d ''_id'' of None \<Rightarrow> Some (VObjectId (next_oid s)) | Some i \<Rightarrow> Some i)
      else if k = ''updated_at'' then Some (VDatetime (clock w (Suc (ticks w))))
      else if k = ''created_at'' then Some (VDatetime (clock w (ticks w)))
      else map_of d k)"
  by (simp add: stored_form_def map_of_stamped map_of_dict_del split: option.splits)

section \<open>Marksheet grading\<close>








section \<open>Marksheets without subjects\<close>

text \<open>
  C3, as the source has it. With an empty subjects list the \<^verbatim>\<open>if sheet.subjects\<close> block
  is skipped: nothing is computed and nothing is divided, the request succeeds, and
  \<^verbatim>\<open>total_obtained\<close>, \<^verbatim>\<open>total_max\<close>, \<^verbatim>\<open>percentage\<close> and \<^verbatim>\<open>grade\<close> are stored as
  the caller supplied them (\<^verbatim>\<open>None\<close> when omitted).
\<close>

theorem empty_subjects_stored_as_supplied:
  assumes "db w = Some s" and "subjects sheet = []"
  shows "fst (create_marksheet sheet w) =
           Inr (VDict [(''id'', VStr (py_str (VObjectId (next_oid s))))])
       \<and> (\<exists>d. stored_docs (snd (create_marksheet sheet w)) ''marksheet'' =
                 stored_docs w ''marksheet'' @ [d]
             \<and> map_of d ''total_obtained'' = Some (dump_num (total_obtained sheet))
             \<and> map_of d ''total_max'' = Some (dump_num (total_max sheet))
             \<and> map_of d ''percentage'' = Some (dump_num (percentage sheet))
             \<and> map_of d ''grade'' = Some (dump_str (grade sheet)))"
  using assms
  by (simp add: fst_create_marksheet create_marksheet_stored graded_empty map_of_stamped)

text \<open>An empty sheet that claims 500 of 500 marks keeps its claim.\<close>

theorem empty_subjects_stored_as_supplied_witness:
  "db fresh_world = Some fresh_store \<and> subjects sheet_topper = []
   \<and> fst (create_marksheet sheet_topper fresh_world) =
       Inr (VDict [(''id'', VStr (py_str (VObjectId 0)))])
   \<and> (\<exists>d. stored_docs (snd (create_marksheet sheet_topper fresh_world)) ''marksheet'' = [d]
          \<and> map_of d ''total_obtained'' = Some (VNum 500)
          \<and> map_of d ''total_max'' = Some (VNum 500)
          \<and> map_of d ''percentage'' = Some (VNum 100)
          \<and> map_of d ''grade'' = Some (VStr ''A+''))"
  using empty_subjects_stored_as_supplied [of fresh_world fresh_store sheet_topper]
  by (simp add: fresh_world_def fresh_store_def sheet_topper_def sheet_of_def stored_docs_def
      collection_def dump_num_def dump_str_def del: py_str.simps)

text \<open>
  C3 as stated expects a total of 0 and a percentage of 0. An empty sheet that supplies
  neither is stored with both fields \<^verbatim>\<open>None\<close>.
\<close>

theorem empty_subjects_percentage_counterexample:
  "stored_docs (snd (create_marksheet (sheet_of []) fresh_world)) ''marksheet'' =
     [[(''_id'', VObjectId 0),
       (''student_id'', VStr ''s1''),
       (''exam_name'', VStr ''Half-Yearly''),
       (''class_name'', VStr ''10''),
       (''year'', VInt 2024),
       (''subjects'', VList []),
       (''total_obtained'', VNone),
       (''total_max'', VNone),
       (''percentage'', VNone),
       (''grade'', VNone),
       (''remarks'', VNone),
       (''created_at'', VDatetime 1000),
       (''updated_at'', VDatetime 1001)]]
   \<and> VNone \<noteq> VNum 0"
  unfolding stored_fresh
  by (simp add: graded_def fresh_world_def sheet_of_def stamped_def dump_num_def dump_str_def)


section \<open>The range of the stored percentage\<close>

text \<open>
  C4 at a request that passes validation: one subject with 150 marks out of 100 (marks
  are only required to be non-negative). The schema bounds \<^verbatim>\<open>percentage\<close> by 100; the
  handler assigns the computed value to the validated instance, where no constraint is
  checked again, and the stored percentage is 150.
\<close>

theorem computed_percentage_above_100:
  "valid_Marksheet sheet_150
   \<and> stored_docs (snd (create_marksheet sheet_150 fresh_world)) ''marksheet'' =
     [[(''_id'', VObjectId 0),
       (''student_id'', VStr ''s1''),
       (''exam_name'', VStr ''Half-Yearly''),
       (''class_name'', VStr ''10''),
       (''year'', VInt 2024),
       (''subjects'', VList [VDict [(''name'', VStr ''Math''), (''marks'', VNum 150),
                                   (''max_marks'', VNum 100)]]),
       (''total_obtained'', VNum 150),
       (''total_max'', VNum 100),
       (''percentage'', VNum 150),
       (''grade'', VStr ''A+''),
       (''remarks'', VNone),
       (''created_at'', VDatetime 1000),
       (''updated_at'', VDatetime 1001)]]
   \<and> \<not> in_range 0 100 (Some 150)"
  unfolding stored_fresh
  by (simp add: graded_def fresh_world_def sheet_150_def sheet_of_def stamped_def
      dump_subject_def dump_num_def dump_str_def py_round2_def Let_def
      valid_Marksheet_def valid_SubjectMark_def at_least_def in_range_def)

section \<open>Duplicate roll numbers\<close>



section \<open>The unconfigured store\<close>



section \<open>Listing with filters\<close>

text \<open>
  C7, as the source has it. In a store whose documents all carry \<^verbatim>\<open>_id\<close>, each list
  handler returns, with \<^verbatim>\<open>_id\<close> renamed to \<^verbatim>\<open>id\<close> and in store order, exactly the
  documents of its collection that agree with every filter parameter that was supplied
  with a non-empty value; a parameter that is absent or the empty string constrains
  nothing (\<open>wanted\<close>). Without parameters the whole collection is returned.
\<close>

theorem list_endpoints_filter:
  assumes "db w = Some s"
    and "list_all has_id (collection s ''student'')"
    and "list_all has_id (collection s ''marksheet'')"
    and "list_all has_id (collection s ''admitcard'')"
    and "list_all has_id (collection s ''attendance'')"
  shows "list_students a b w =
           (Inr (listing (filter (\<lambda>d. wanted ''class_name'' a d \<and> wanted ''section'' b d)
                            (collection s ''student''))), w)
       \<and> list_marksheets a b w =
           (Inr (listing (filter (\<lambda>d. wanted ''student_id'' a d \<and> wanted ''exam_name'' b d)
                            (collection s ''marksheet''))), w)
       \<and> list_admit_cards a b w =
           (Inr (listing (filter (\<lambda>d. wanted ''student_id'' a d \<and> wanted ''exam_name'' b d)
                            (collection s ''admitcard''))), w)
       \<and> list_attendance a b c w =
           (Inr (listing (filter (\<lambda>d. wanted ''student_id'' a d \<and> wanted ''date'' b d
                                     \<and> wanted ''status'' c d)
                            (collection s ''attendance''))), w)
       \<and> list_students None None w = (Inr (listing (collection s ''student'')), w)
       \<and> list_marksheets None None w = (Inr (listing (collection s ''marksheet'')), w)
       \<and> list_admit_cards None None w = (Inr (listing (collection s ''admitcard'')), w)
       \<and> list_attendance None None None w = (Inr (listing (collection s ''attendance'')), w)"
proof -
  have m2: "\<And>k1 k2 x y. k1 \<noteq> k2 \<Longrightarrow>
      matches (set_if k2 y (set_if k1 x [])) = (\<lambda>d. wanted k1 x d \<and> wanted k2 y d)"
    by (rule ext) (simp add: matches_set_if_2)
  have m3: "\<And>k1 k2 k3 x y z. k1 \<noteq> k2 \<Longrightarrow> k1 \<noteq> k3 \<Longrightarrow> k2 \<noteq> k3 \<Longrightarrow>
      matches (set_if k3 z (set_if k2 y (set_if k1 x []))) =
        (\<lambda>d. wanted k1 x d \<and> wanted k2 y d \<and> wanted k3 z d)"
    by (rule ext) (simp add: matches_set_if_3)
  have st: "\<And>a b. list_students a b w =
      (Inr (listing (filter (\<lambda>d. wanted ''class_name'' a d \<and> wanted ''section'' b d)
                            (collection s ''student''))), w)"
    using assms(1,2)
    by (simp add: list_students_def ensure_db_available_def Let_def return_docs_listing m2)
  have ms: "\<And>a b. list_marksheets a b w =
      (Inr (listing (filter (\<lambda>d. wanted ''student_id'' a d \<and> wanted ''exam_name'' b d)
                            (collection s ''marksheet''))), w)"
    using assms(1,3)
    by (simp add: list_marksheets_def ensure_db_available_def Let_def return_docs_listing m2)
  have ac: "\<And>a b. list_admit_cards a b w =
      (Inr (listing (filter (\<lambda>d. wanted ''student_id'' a d \<and> wanted ''exam_name'' b d)
                            (collection s ''admitcard''))), w)"
    using assms(1,4)
    by (simp add: list_admit_cards_def ensure_db_available_def Let_def return_docs_listing m2)
  have at: "\<And>a b c. list_attendance a b c w =
      (Inr (listing (filter (\<lambda>d. wanted ''student_id'' a d \<and> wanted ''date'' b d
                                     \<and> wanted ''status'' c d)
                            (collection s ''attendance''))), w)"
    using assms(1,5)
    by (simp add: list_attendance_def ensure_db_available_def Let_def return_docs_listing m3)
  show ?thesis
    by (simp add: st ms ac at wanted_def)
qed

text \<open>
  Two attendance records, one Present and one Absent: the filter \<^verbatim>\<open>status=Present\<close>
  returns the first only, no filter returns both.
\<close>

theorem list_endpoints_filter_witness:
  "db school_world = Some school_store
   \<and> list_all has_id (collection school_store ''student'')
   \<and> list_all has_id (collection school_store ''marksheet'')
   \<and> list_all has_id (collection school_store ''admitcard'')
   \<and> list_all has_id (collection school_store ''attendance'')
   \<and> list_attendance None None (Some ''Present'') school_world =
       (Inr (VList [public_present]), school_world)
   \<and> list_attendance None None None school_world =
       (Inr (VList [public_present, public_absent]), school_world)"
proof -
  have ids: "list_all has_id (collection school_store ''student'')"
    "list_all has_id (collection school_store ''marksheet'')"
    "list_all has_id (collection school_store ''admitcard'')"
    "list_all has_id (collection school_store ''attendance'')"
    by (simp_all add: school_collections has_id_def student_doc_def att_present_def
        att_absent_def)
  have present: "filter (\<lambda>d. wanted ''student_id'' None d \<and> wanted ''date'' None d
                            \<and> wanted ''status'' (Some ''Present'') d)
                    [att_present, att_absent] = [att_present]"
    by (simp add: wanted_def att_present_def att_absent_def)
  note inst = list_endpoints_filter [OF db_school_world ids, of None None "Some ''Present''"]
  have filtered: "list_attendance None None (Some ''Present'') school_world =
      (Inr (VList [public_present]), school_world)"
    using inst unfolding school_collections present
    by (simp add: listing_def school_public)
  have everything: "list_attendance None None None school_world =
      (Inr (VList [public_present, public_absent]), school_world)"
    using inst unfolding school_collections
    by (simp add: listing_def school_public)
  show ?thesis
    using ids filtered everything by (simp add: db_school_world)
qed

text \<open>
  C7 as stated lets every supplied parameter narrow the result to the documents whose
  field equals it. The request \<^verbatim>\<open>GET /attendance?status=\<close> supplies the empty string,
  which no stored status equals, and gets both records.
\<close>

theorem empty_filter_counterexample:
  "list_attendance None None (Some []) school_world =
     (Inr (VList [public_present, public_absent]), school_world)
   \<and> map_of att_present ''status'' = Some (VStr ''Present'')
   \<and> map_of att_absent ''status'' = Some (VStr ''Absent'')"
proof -
  have "return_docs ''attendance'' [] school_world =
      (Inr (VList [public_present, public_absent]), school_world)"
    by (simp add: return_docs_def get_documents_def db_school_world find_def matches_def
        school_collections rename_id_def att_present_def att_absent_def public_present_def
        public_absent_def dict_del_def hex_of_small)
  then show ?thesis
    by (simp add: list_attendance_def ensure_db_available_def db_school_world set_if_def
        att_present_def att_absent_def)
qed

section \<open>Attendance status\<close>



section \<open>Timestamps of created documents\<close>

text \<open>
  C9, as the source has it. Every document that \<^verbatim>\<open>create_document\<close> persists carries
  \<^verbatim>\<open>created_at\<close> and \<^verbatim>\<open>updated_at\<close>, each a reading of the UTC clock taken during the
  call: \<^verbatim>\<open>created_at\<close> is the first reading and \<^verbatim>\<open>updated_at\<close> the next one, two calls
  of \<^verbatim>\<open>datetime.now\<close>. Neither is taken from the caller's record, and every other
  field of the caller's record is stored unchanged; apart from \<^verbatim>\<open>_id\<close> and the two
  stamps the stored document has the caller's fields and no others.
\<close>

theorem created_documents_are_stamped:
  assumes "db w = Some s" and "fst (create_document c dat w) = Inr r"
  shows "\<exists>d. stored_docs (snd (create_document c dat w)) c = stored_docs w c @ [d]
           \<and> map_of d ''created_at'' = Some (VDatetime (clock w (ticks w)))
           \<and> map_of d ''updated_at'' = Some (VDatetime (clock w (Suc (ticks w))))
           \<and> (\<forall>k v. k \<noteq> ''created_at'' \<longrightarrow> k \<noteq> ''updated_at'' \<longrightarrow>
                  map_of (argument_dict dat w) k = Some v \<longrightarrow> map_of d k = Some v)
           \<and> (\<forall>k. k \<noteq> ''_id'' \<longrightarrow> k \<noteq> ''created_at'' \<longrightarrow> k \<noteq> ''updated_at'' \<longrightarrow>
                  map_of d k = map_of (argument_dict dat w) k)"
  using create_document_stored [OF assms]
  by (auto simp add: map_of_stored_form)

text \<open>
  A plain dictionary that brings a \<^verbatim>\<open>created_at\<close> of its own: the title is stored as
  given, the caller's \<^verbatim>\<open>created_at\<close> is replaced by the clock reading.
\<close>

theorem created_documents_are_stamped_witness:
  "db dict_world = Some fresh_store
   \<and> fst (create_document ''notice'' (Dict 0) dict_world) = Inr (py_str (VObjectId 0))
   \<and> stored_docs (snd (create_document ''notice'' (Dict 0) dict_world)) ''notice'' =
       [[(''_id'', VObjectId 0), (''title'', VStr ''Sports day''),
         (''created_at'', VDatetime 1000), (''updated_at'', VDatetime 1001)]]"
proof -
  have db: "db dict_world = Some fresh_store"
    by (simp add: dict_world_def fresh_world_def)
  have arg: "argument_dict (Dict 0) dict_world = caller_dict"
    by (simp add: argument_dict_def dict_world_def)
  have time: "clock dict_world (ticks dict_world) = 1000"
    "clock dict_world (Suc (ticks dict_world)) = 1001"
    by (simp_all add: dict_world_def fresh_world_def)
  have no_id: "map_of (argument_dict (Dict 0) dict_world) ''_id'' = None"
    by (simp add: arg caller_dict_def)
  have ok: "fst (create_document ''notice'' (Dict 0) dict_world) = Inr (py_str (VObjectId 0))"
    using create_document_fresh(1) [OF db no_id, of "''notice''"] by (simp add: fresh_store_def)
  have old: "stored_docs dict_world ''notice'' = []"
    by (simp add: stored_docs_def db fresh_store_def collection_def)
  from created_documents_are_stamped [OF db ok]
  obtain d where d: "stored_docs (snd (create_document ''notice'' (Dict 0) dict_world)) ''notice'' =
        stored_docs dict_world ''notice'' @ [d]" by blast
  have stored: "stored_docs (snd (create_document ''notice'' (Dict 0) dict_world)) ''notice'' =
      [stored_form fresh_store dict_world caller_dict]"
    using create_document_stored [OF db ok] unfolding arg old by simp
  have form: "stored_form fresh_store dict_world caller_dict =
      [(''_id'', VObjectId 0), (''title'', VStr ''Sports day''),
       (''created_at'', VDatetime 1000), (''updated_at'', VDatetime 1001)]"
    by (simp add: stored_form_def caller_dict_def stamped_def time fresh_store_def)
  from d stored form old have "d = [(''_id'', VObjectId 0), (''title'', VStr ''Sports day''),
       (''created_at'', VDatetime 1000), (''updated_at'', VDatetime 1001)]"
    by simp
  with d old db ok show ?thesis by simp
qed

text \<open>
  C9 as stated has one instant in both fields. With a clock that advances between the two
  readings, the stored admit card has \<^verbatim>\<open>created_at\<close> 1000 and \<^verbatim>\<open>updated_at\<close> 1001.
\<close>

theorem timestamps_differ_counterexample:
  "stored_docs (snd (create_document ''admitcard'' (Model (MAdmitCard card_1)) fresh_world))
      ''admitcard'' =
     [[(''_id'', VObjectId 0),
       (''student_id'', VStr ''s1''),
       (''roll_no'', VStr ''1''),
       (''class_name'', VStr ''10''),
       (''exam_name'', VStr ''Half-Yearly''),
       (''exam_date'', VNone),
       (''center'', VNone),
       (''issued_on'', VNone),
       (''created_at'', VDatetime 1000),
       (''updated_at'', VDatetime 1001)]]
   \<and> VDatetime 1000 \<noteq> VDatetime 1001"
proof -
  have no_id: "map_of (argument_dict (Model (MAdmitCard card_1)) fresh_world) ''_id'' = None"
    by (simp add: argument_dict_def)
  show ?thesis
    unfolding create_document_fresh(2) [OF db_fresh_world no_id] docs_fresh_world
    by (simp add: fresh_store_def argument_dict_def stamped_def card_1_def
        fresh_world_def dump_date_opt_def)
qed

section \<open>The caller's dictionary\<close>

text \<open>
  C10. \<^verbatim>\<open>create_document\<close> works on a copy: for a plain dictionary passed by
  reference, the object the caller holds is the same after the call as before, so it has
  gained no \<^verbatim>\<open>created_at\<close>, \<^verbatim>\<open>updated_at\<close> or \<^verbatim>\<open>_id\<close>; with a configured store the
  timestamps are on the stored document.
\<close>

theorem create_document_keeps_input:
  assumes "r < next_addr w"
  shows "heap (snd (create_document c (Dict r) w)) r = heap w r
       \<and> (db w = Some s \<longrightarrow> map_of (heap w r) ''_id'' = None \<longrightarrow>
            (\<exists>d. stored_docs (snd (create_document c (Dict r) w)) c = stored_docs w c @ [d]
                 \<and> map_of d ''created_at'' = Some (VDatetime (clock w (ticks w)))
                 \<and> map_of d ''updated_at'' = Some (VDatetime (clock w (Suc (ticks w))))))"
proof (intro conjI impI)
  show "heap (snd (create_document c (Dict r) w)) r = heap w r"
    using assms
    by (simp add: create_document_def new_dict_def now_def setitem_def insert_one_def Let_def
        split: option.splits)
next
  assume "db w = Some s" and "map_of (heap w r) ''_id'' = None"
  then show "\<exists>d. stored_docs (snd (create_document c (Dict r) w)) c = stored_docs w c @ [d]
                 \<and> map_of d ''created_at'' = Some (VDatetime (clock w (ticks w)))
                 \<and> map_of d ''updated_at'' = Some (VDatetime (clock w (Suc (ticks w))))"
    using create_document_fresh(2) [of w s "Dict r" c c]
    by (simp add: argument_dict_def map_of_stamped)
qed

text \<open>
  The caller's dictionary with a title only: after the call it still has the title only,
  and the stored document has both timestamps.
\<close>

theorem create_document_keeps_input_witness:
  "(1::nat) < next_addr dict_world
   \<and> db dict_world = Some fresh_store
   \<and> heap dict_world 1 = [(''title'', VStr ''Sports day'')]
   \<and> heap (snd (create_document ''notice'' (Dict 1) dict_world)) 1 =
       [(''title'', VStr ''Sports day'')]
   \<and> (\<exists>d. stored_docs (snd (create_document ''notice'' (Dict 1) dict_world)) ''notice'' = [d]
          \<and> map_of d ''created_at'' = Some (VDatetime 1000)
          \<and> map_of d ''updated_at'' = Some (VDatetime 1001))"
proof -
  have addr: "(1::nat) < next_addr dict_world"
    by (simp add: dict_world_def)
  have db: "db dict_world = Some fresh_store"
    by (simp add: dict_world_def fresh_world_def)
  have obj: "heap dict_world 1 = [(''title'', VStr ''Sports day'')]"
    by (simp add: dict_world_def plain_dict_def)
  have old: "stored_docs dict_world ''notice'' = []"
    by (simp add: stored_docs_def db fresh_store_def collection_def)
  have time: "clock dict_world (ticks dict_world) = 1000"
    "clock dict_world (Suc (ticks dict_world)) = 1001"
    by (simp_all add: dict_world_def fresh_world_def)
  have no_id: "map_of (heap dict_world 1) ''_id'' = None"
    unfolding obj by simp
  note kept = create_document_keeps_input [OF addr, of "''notice''" fresh_store]
  from kept have frame: "heap (snd (create_document ''notice'' (Dict 1) dict_world)) 1 =
      [(''title'', VStr ''Sports day'')]"
    unfolding obj by (rule conjunct1)
  from kept db no_id
  have "\<exists>d. stored_docs (snd (create_document ''notice'' (Dict 1) dict_world)) ''notice'' = [d]
          \<and> map_of d ''created_at'' = Some (VDatetime 1000)
          \<and> map_of d ''updated_at'' = Some (VDatetime 1001)"
    unfolding old time append_Nil by blast
  with addr db obj frame show ?thesis by blast
qed

end
